theory Spec2Isabelle
  imports Complex_Main
begin

section \<open>Data model\<close>

text \<open>
  The controller \<^verbatim>\<open>subscription.controller.js\<close> works on two MongoDB collections
  through Mongoose: the users and the subscription edges. A collection is a list of
  documents in natural (insertion) order, which is the order \<^verbatim>\<open>findOne\<close>,
  \<^verbatim>\<open>find\<close> and the aggregation stages read it in.

  An ObjectId is a value of its own type, apart from the strings of a request: two
  ObjectIds are equal when their hexadecimal text is, and \<^verbatim>\<open>toString\<close> gives that
  text. A string of a request becomes an ObjectId only through the driver's cast, which
  reads the 24 hexadecimal digits whatever their case. The cast belongs to the driver,
  so every handler takes it as its first argument \<open>toObjectId\<close>: the ObjectId a string
  denotes, or \<open>None\<close> when it denotes none.
\<close>

datatype objectId = ObjectId string

fun toString :: "objectId \<Rightarrow> string" where
  "toString (ObjectId h) = h"

record user =
  uid :: objectId
  username :: string
  fullName :: string
  avatar :: string

record subscription =
  sid :: objectId
  subscriber :: objectId
  channel :: objectId

text \<open>
  The queries the handlers send, with the ids as the store receives them (after the
  cast). The log of a database records them in the order they are issued; it is ghost
  state that makes "store access" something a theorem can speak about, and no handler
  reads it.
\<close>

datatype store_op =
    OpFindOne objectId objectId
  | OpDeleteOne objectId
  | OpCreate objectId objectId
  | OpCountDocuments objectId
  | OpFind objectId "objectId list"
  | OpAggregateSubscribers objectId
  | OpAggregateChannels objectId "string option" int int
  | OpAggregateCount objectId string

record db =
  users :: "user list"
  subscriptions :: "subscription list"
  oplog :: "store_op list"

definition logged :: "store_op \<Rightarrow> db \<Rightarrow> db" where
  "logged q d = d\<lparr>oplog := oplog d @ [q]\<rparr>"

text \<open>
  What a handler throws. \<^verbatim>\<open>ApiError\<close> carries the status code and the message the
  source gives it; the other two are the errors of the driver that the handlers do not
  catch (a string that is no ObjectId, a pipeline stage the server rejects). Their
  message texts stand for the driver's and no property below reads them.
\<close>

datatype error =
    ApiError nat string
  | CastError string
  | MongoServerError string

fun errorMessage :: "error \<Rightarrow> string" where
  "errorMessage (ApiError c m) = m"
| "errorMessage (CastError m) = m"
| "errorMessage (MongoServerError m) = m"

text \<open>
  \<^verbatim>\<open>res.status(s).json(new ApiResponse(c, data, message))\<close>: the HTTP status, and the
  envelope's status code, payload and message.
\<close>

record 'a response =
  httpStatus :: nat
  statusCode :: nat
  payload :: 'a
  message :: string

definition respond :: "nat \<Rightarrow> nat \<Rightarrow> 'a \<Rightarrow> string \<Rightarrow> 'a response" where
  "respond s c x m = \<lparr>httpStatus = s, statusCode = c, payload = x, message = m\<rparr>"

text \<open>
  The object literals the first two handlers answer with are maps from property names
  to values. \<open>JInternal\<close> is Mongoose's internal state of a document and \<open>JFields\<close>
  the plain object that holds a document's fields.
\<close>

datatype jsval = JBool bool | JUndefined | JInternal | JFields subscription

type_synonym jsObject = "string \<Rightarrow> jsval option"

section \<open>Requests\<close>

text \<open>
  \<^verbatim>\<open>req.params.channelId\<close> is a string or absent; \<^verbatim>\<open>req.user._id\<close> is the ObjectId
  the authentication middleware put there. The query parameters \<^verbatim>\<open>page\<close> and
  \<^verbatim>\<open>limit\<close> are strings of decimal digits with an optional sign, modelled by the
  integer they denote, \<^verbatim>\<open>None\<close> when absent.
\<close>

record channelRequest =
  channelId :: "string option"
  requester :: objectId

record listRequest =
  requestingUserId :: objectId
  userId :: "string option"
  page :: "int option"
  limit :: "int option"
  search :: "string option"

text \<open>A string of the request is falsy exactly when it is absent or empty.\<close>

fun truthy :: "string option \<Rightarrow> bool" where
  "truthy None = False"
| "truthy (Some s) = (s \<noteq> [])"

section \<open>Numbers\<close>

text \<open>
  A JavaScript number is an IEEE double. The numbers of the handlers are whole, so they
  are modelled by integers, and every conversion and operation rounds its exact result to
  the nearest double, ties to the even significand of 53 bits. An integer below \<open>2^53\<close>
  in absolute value is its own double. (A digit string too long for a finite double
  gives \<^verbatim>\<open>Infinity\<close> in the code and a large integer here; both are beyond what
  \<^verbatim>\<open>$skip\<close> and \<^verbatim>\<open>$limit\<close> accept, see \<open>skipLimit\<close> below.)
\<close>

fun bitlen :: "nat \<Rightarrow> nat" where
  "bitlen n = (if n = 0 then 0 else Suc (bitlen (n div 2)))"

definition roundEven :: "nat \<Rightarrow> nat" where
  "roundEven n =
     (if n < 2 ^ 53 then n
      else (let e = bitlen n - 53;
                q = n div 2 ^ e;
                r = n mod 2 ^ e;
                h = 2 ^ (e - 1)
            in (if h < r \<or> (r = h \<and> odd q) then q + 1 else q) * 2 ^ e))"

definition toDouble :: "int \<Rightarrow> int" where
  "toDouble n = (if n < 0 then - int (roundEven (nat (- n))) else int (roundEven (nat n)))"

definition jsMinus :: "int \<Rightarrow> int \<Rightarrow> int" where
  "jsMinus a b = toDouble (a - b)"

definition jsTimes :: "int \<Rightarrow> int \<Rightarrow> int" where
  "jsTimes a b = toDouble (a * b)"

definition pageOr :: "int option \<Rightarrow> int \<Rightarrow> int" where
  "pageOr p dflt = (case p of None \<Rightarrow> dflt | Some n \<Rightarrow> n)"

text \<open>
  \<^verbatim>\<open>const { page = 1, limit = 10 } = req.query\<close>, read as numbers (the coercion of
  \<^verbatim>\<open>page - 1\<close> and \<^verbatim>\<open>* limit\<close>, and \<^verbatim>\<open>parseInt\<close>, which agree on a digit
  string), and \<^verbatim>\<open>skip = (page - 1) * limit\<close>.
\<close>

definition pageNumber :: "listRequest \<Rightarrow> int" where
  "pageNumber req = toDouble (pageOr (page req) 1)"

definition limitNumber :: "listRequest \<Rightarrow> int" where
  "limitNumber req = toDouble (pageOr (limit req) 10)"

definition skipOf :: "listRequest \<Rightarrow> int" where
  "skipOf req = jsTimes (jsMinus (pageNumber req) 1) (limitNumber req)"

text \<open>
  \<^verbatim>\<open>Math.ceil(a / b)\<close> for a count \<open>a\<close> and the \<open>b > 0\<close> the handlers reach it with (a
  limit that is not positive has made \<^verbatim>\<open>aggregate\<close> throw before). A collection holds
  fewer than \<open>2^53\<close> documents, and for such a count the ceiling of the rounded
  quotient is the ceiling of the exact one.
\<close>

definition mathCeilDiv :: "int \<Rightarrow> int \<Rightarrow> int" where
  "mathCeilDiv a b = - ((- a) div b)"

section \<open>Store operations\<close>

text \<open>
  Mongoose's \<^verbatim>\<open>isValidObjectId(v)\<close> is true exactly when \<open>v\<close> can be cast to an
  ObjectId.
\<close>

definition isValidObjectId :: "(string \<Rightarrow> objectId option) \<Rightarrow> string \<Rightarrow> bool" where
  "isValidObjectId toObjectId s = (toObjectId s \<noteq> None)"

text \<open>
  An id handed to a query is a string of the request or an ObjectId (the session's, a
  document's). Mongoose casts the string of a filter or of a new document to an ObjectId,
  and throws when it cannot.
\<close>

datatype idArg = IdString string | IdObject objectId

fun castObjectId :: "(string \<Rightarrow> objectId option) \<Rightarrow> idArg \<Rightarrow> error + objectId" where
  "castObjectId toObjectId (IdObject i) = Inr i"
| "castObjectId toObjectId (IdString s) =
     (case toObjectId s of
        None \<Rightarrow> Inl (CastError ''Cast to ObjectId failed'')
      | Some i \<Rightarrow> Inr i)"

definition findOne ::
  "(string \<Rightarrow> objectId option) \<Rightarrow> idArg \<Rightarrow> objectId \<Rightarrow> db
     \<Rightarrow> (error + subscription option) \<times> db" where
  "findOne toObjectId ch sb d =
     (case castObjectId toObjectId ch of
        Inl e \<Rightarrow> (Inl e, d)
      | Inr c \<Rightarrow>
          (Inr (find (\<lambda>e. channel e = c \<and> subscriber e = sb) (subscriptions d)),
           logged (OpFindOne c sb) d))"

text \<open>
  \<^verbatim>\<open>deleteOne({_id: i})\<close> removes the first document with that id and reports how many
  it removed; the report is an object whatever the count.
\<close>

record deleteResult =
  acknowledged :: bool
  deletedCount :: nat

fun removeFirst :: "objectId \<Rightarrow> subscription list \<Rightarrow> subscription list" where
  "removeFirst i [] = []"
| "removeFirst i (e # es) = (if sid e = i then es else e # removeFirst i es)"

definition deleteOne :: "objectId \<Rightarrow> db \<Rightarrow> deleteResult \<times> db" where
  "deleteOne i d =
     (\<lparr>acknowledged = True,
       deletedCount = (if list_ex (\<lambda>e. sid e = i) (subscriptions d) then 1 else 0)\<rparr>,
      logged (OpDeleteOne i) (d\<lparr>subscriptions := removeFirst i (subscriptions d)\<rparr>))"

text \<open>
  \<^verbatim>\<open>Subscription.create({channel, subscriber})\<close> casts the channel, appends a document
  under the id the driver generated for it (the argument \<open>newId\<close>) and returns the
  document.
\<close>

definition create ::
  "(string \<Rightarrow> objectId option) \<Rightarrow> objectId \<Rightarrow> idArg \<Rightarrow> objectId \<Rightarrow> db
     \<Rightarrow> (error + subscription) \<times> db" where
  "create toObjectId newId ch sb d =
     (case castObjectId toObjectId ch of
        Inl e \<Rightarrow> (Inl e, d)
      | Inr c \<Rightarrow>
          (let doc = \<lparr>sid = newId, subscriber = sb, channel = c\<rparr>
           in (Inr doc, logged (OpCreate c sb) (d\<lparr>subscriptions := subscriptions d @ [doc]\<rparr>))))"

text \<open>In JavaScript every object is truthy, whatever its fields hold.\<close>

definition objectTruthy :: "'a \<Rightarrow> bool" where
  "objectTruthy x = True"

text \<open>
  What \<^verbatim>\<open>create\<close> returns is a Mongoose document, not a plain object. Its own
  enumerable properties, the ones an object spread copies, are Mongoose's bookkeeping
  (\<^verbatim>\<open>$__\<close>, \<^verbatim>\<open>$isNew\<close>, \<^verbatim>\<open>$errors\<close>) and \<^verbatim>\<open>_doc\<close>, the object that holds the
  fields; the fields themselves (\<^verbatim>\<open>_id\<close>, \<^verbatim>\<open>subscriber\<close>, \<^verbatim>\<open>channel\<close>) are accessors
  of the prototype, which a spread does not copy.
\<close>

definition documentProps :: "subscription \<Rightarrow> jsObject" where
  "documentProps doc =
     [''$__'' \<mapsto> JInternal, ''$isNew'' \<mapsto> JBool False, ''$errors'' \<mapsto> JUndefined,
      ''_doc'' \<mapsto> JFields doc]"

section \<open>checkSubscriptionStatus\<close>

definition checkSubscriptionStatus ::
  "(string \<Rightarrow> objectId option) \<Rightarrow> channelRequest \<Rightarrow> db \<Rightarrow> (error + jsObject response) \<times> db" where
  "checkSubscriptionStatus toObjectId req d =
     (if \<not> truthy (channelId req) then (Inl (ApiError 400 ''Channel id is required.''), d)
      else case channelId req of
        None \<Rightarrow> (Inl (ApiError 400 ''Channel id is required.''), d)
      | Some cid \<Rightarrow>
          if \<not> isValidObjectId toObjectId cid
          then (Inl (ApiError 400 ''Invalid channel id.''), d)
          else
            (case findOne toObjectId (IdString cid) (requester req) d of
               (Inl e, d1) \<Rightarrow> (Inl e, d1)
             | (Inr found, d1) \<Rightarrow>
                 (Inr (respond 200 200 [''isSubscribed'' \<mapsto> JBool (found \<noteq> None)]
                        ''Subscription status retrieved successfully.''), d1)))"

section \<open>toggleSubscriptionStatus\<close>

text \<open>
  The handler awaits the store twice. The two branches after the lookup are
  functions of their own, taking the store as it is when the branch runs: in a request
  that nothing interleaves with, that is the store the lookup left.
\<close>

definition toggleUnsubscribe :: "subscription \<Rightarrow> db \<Rightarrow> (error + jsObject response) \<times> db" where
  "toggleUnsubscribe existingSubscription d =
     (let (deleteSubscription, d1) = deleteOne (sid existingSubscription) d
      in if \<not> objectTruthy deleteSubscription
         then (Inl (ApiError 500 ''Subscription not found or already unsubscribed.''), d1)
         else (Inr (respond 200 200 [''isSubscribed'' \<mapsto> JBool False]
                     ''Unsubscribed successfully.''), d1))"

definition toggleSubscribe ::
  "(string \<Rightarrow> objectId option) \<Rightarrow> objectId \<Rightarrow> string \<Rightarrow> objectId \<Rightarrow> db
     \<Rightarrow> (error + jsObject response) \<times> db" where
  "toggleSubscribe toObjectId newId cid sb d =
     (case create toObjectId newId (IdString cid) sb d of
        (Inl e, d1) \<Rightarrow> (Inl e, d1)
      | (Inr doc, d1) \<Rightarrow>
          if \<not> objectTruthy doc
          then (Inl (ApiError 500 ''Internal Server Error: Subscription could not be created.''),
                d1)
          else (Inr (respond 201 201 ((documentProps doc)(''isSubscribed'' \<mapsto> JBool True))
                      ''Subscribed successfully.''), d1))"

definition toggleSubscriptionStatus ::
  "(string \<Rightarrow> objectId option) \<Rightarrow> objectId \<Rightarrow> channelRequest \<Rightarrow> db
     \<Rightarrow> (error + jsObject response) \<times> db" where
  "toggleSubscriptionStatus toObjectId newId req d =
     (if \<not> truthy (channelId req) then (Inl (ApiError 400 ''Channel id is required.''), d)
      else case channelId req of
        None \<Rightarrow> (Inl (ApiError 400 ''Channel id is required.''), d)
      | Some cid \<Rightarrow>
          if \<not> isValidObjectId toObjectId cid
          then (Inl (ApiError 400 ''Invalid channel id.''), d)
          else
            (case findOne toObjectId (IdString cid) (requester req) d of
               (Inl e, d1) \<Rightarrow> (Inl e, d1)
             | (Inr existingSubscription, d1) \<Rightarrow>
                 (case existingSubscription of
                    Some e \<Rightarrow> toggleUnsubscribe e d1
                  | None \<Rightarrow> toggleSubscribe toObjectId newId cid (requester req) d1)))"

section \<open>getChannelSubscribersList\<close>

text \<open>
  \<^verbatim>\<open>new mongoose.Types.ObjectId(x)\<close>: without an argument the driver generates an id
  (the argument \<open>generated\<close>); a string is cast, and the constructor throws when the
  string denotes no ObjectId.
\<close>

definition newObjectId ::
  "(string \<Rightarrow> objectId option) \<Rightarrow> objectId \<Rightarrow> string option \<Rightarrow> error + objectId" where
  "newObjectId toObjectId generated x =
     (case x of
        None \<Rightarrow> Inr generated
      | Some s \<Rightarrow>
          (case toObjectId s of
             None \<Rightarrow> Inl (CastError
               ''input must be a 24 character hex string, 12 byte Uint8Array, or an integer'')
           | Some i \<Rightarrow> Inr i))"

record subscriberSummary =
  sub_subscriber :: objectId
  sub_username :: string
  sub_fullName :: string
  sub_avatar :: string

text \<open>
  The pipeline over the users, stage by stage: \<^verbatim>\<open>$match\<close> on the id,
  \<^verbatim>\<open>$lookup\<close> of the edges whose channel is the user, \<^verbatim>\<open>$unwind\<close>, \<^verbatim>\<open>$lookup\<close>
  of the users who are the edge's subscriber, \<^verbatim>\<open>$unwind\<close>, \<^verbatim>\<open>$project\<close>.
\<close>

definition subscribersPipeline :: "objectId \<Rightarrow> db \<Rightarrow> subscriberSummary list" where
  "subscribersPipeline i d =
     (let matched = filter (\<lambda>u. uid u = i) (users d);
          withSubscribers =
            map (\<lambda>u. (u, filter (\<lambda>e. channel e = uid u) (subscriptions d))) matched;
          unwound = concat (map (\<lambda>(u, es). map (\<lambda>e. (u, e)) es) withSubscribers);
          withDetails =
            map (\<lambda>(u, e). (u, e, filter (\<lambda>x. uid x = subscriber e) (users d))) unwound;
          unwoundDetails = concat (map (\<lambda>(u, e, xs). map (\<lambda>x. (u, e, x)) xs) withDetails)
      in map (\<lambda>(u, e, x). \<lparr>sub_subscriber = uid x, sub_username = username x,
                            sub_fullName = fullName x, sub_avatar = avatar x\<rparr>)
           unwoundDetails)"

definition aggregateSubscribers :: "objectId \<Rightarrow> db \<Rightarrow> subscriberSummary list \<times> db" where
  "aggregateSubscribers i d = (subscribersPipeline i d, logged (OpAggregateSubscribers i) d)"

text \<open>
  \<^verbatim>\<open>targetUserId = userId || requestingUserId\<close> is either the string of the query or
  the ObjectId of the session.
\<close>

definition targetOf :: "listRequest \<Rightarrow> idArg" where
  "targetOf req =
     (case userId req of
        None \<Rightarrow> IdObject (requestingUserId req)
      | Some s \<Rightarrow> if s \<noteq> [] then IdString s else IdObject (requestingUserId req))"

definition getChannelSubscribersList ::
  "(string \<Rightarrow> objectId option) \<Rightarrow> objectId \<Rightarrow> listRequest \<Rightarrow> db
     \<Rightarrow> (error + subscriberSummary list response) \<times> db" where
  "getChannelSubscribersList toObjectId generated req d =
     (let targetUserId = targetOf req;
          skip = skipOf req
      in case newObjectId toObjectId generated (userId req) of
           Inl e \<Rightarrow> (Inl e, d)
         | Inr i \<Rightarrow>
             (let (getChannelSubscribers, d1) = aggregateSubscribers i d
              in if length getChannelSubscribers = 0
                 then (Inl (ApiError 404 ''No subscribers found for this channel.''), d1)
                 else (Inr (respond 200 200 getChannelSubscribers
                             ''Subscribers fetched successfully.''), d1)))"

section \<open>getUserSubscribedChannels\<close>

definition countDocuments ::
  "(string \<Rightarrow> objectId option) \<Rightarrow> idArg \<Rightarrow> db \<Rightarrow> (error + int) \<times> db" where
  "countDocuments toObjectId t d =
     (case castObjectId toObjectId t of
        Inl e \<Rightarrow> (Inl e, d)
      | Inr i \<Rightarrow> (Inr (int (length (filter (\<lambda>e. subscriber e = i) (subscriptions d)))),
                  logged (OpCountDocuments i) d))"

record channelSummary =
  ch_id :: objectId
  ch_username :: string
  ch_fullName :: string
  ch_avatar :: string
  totalSubscribers :: int

record channelResult = channelSummary +
  isSubscribedByMe :: bool

text \<open>The stages the two listings share.\<close>

definition lookupChannelDetails :: "db \<Rightarrow> subscription list \<Rightarrow> (subscription \<times> user list) list" where
  "lookupChannelDetails d es = map (\<lambda>e. (e, filter (\<lambda>u. uid u = channel e) (users d))) es"

definition unwindChannelDetails :: "(subscription \<times> user list) list \<Rightarrow> (subscription \<times> user) list" where
  "unwindChannelDetails rows = concat (map (\<lambda>(e, us). map (\<lambda>u. (e, u)) us) rows)"

definition lookupSubscribers ::
  "db \<Rightarrow> (subscription \<times> user) list \<Rightarrow> (subscription \<times> user \<times> subscription list) list" where
  "lookupSubscribers d rows =
     map (\<lambda>(e, u). (e, u, filter (\<lambda>x. channel x = channel e) (subscriptions d))) rows"

definition projectChannel :: "(subscription \<times> user \<times> subscription list) list \<Rightarrow> channelSummary list" where
  "projectChannel rows =
     map (\<lambda>(e, u, xs). \<lparr>ch_id = uid u, ch_username = username u, ch_fullName = fullName u,
                          ch_avatar = avatar u, totalSubscribers = int (length xs)\<rparr>) rows"

text \<open>
  \<^verbatim>\<open>$skip\<close> and \<^verbatim>\<open>$limit\<close>: the server takes a skip that is a non-negative 64-bit
  integer and a limit that is a positive one, and rejects every other number; the
  rejection is thrown by \<^verbatim>\<open>aggregate\<close>.
\<close>

definition skipLimit :: "int \<Rightarrow> int \<Rightarrow> 'a list \<Rightarrow> error + 'a list" where
  "skipLimit skip lmt xs =
     (if skip < 0 \<or> 2 ^ 63 \<le> skip
      then Inl (MongoServerError ''invalid argument to $skip stage'')
      else if lmt \<le> 0 \<or> 2 ^ 63 \<le> lmt
      then Inl (MongoServerError ''invalid argument to $limit stage'')
      else Inr (take (nat lmt) (drop (nat skip) xs)))"

definition subscribedChannelsPipeline :: "objectId \<Rightarrow> db \<Rightarrow> channelSummary list" where
  "subscribedChannelsPipeline t d =
     projectChannel (lookupSubscribers d (unwindChannelDetails (lookupChannelDetails d
       (filter (\<lambda>e. subscriber e = t) (subscriptions d)))))"

definition aggregateChannels ::
  "objectId \<Rightarrow> int \<Rightarrow> int \<Rightarrow> db \<Rightarrow> (error + channelSummary list) \<times> db" where
  "aggregateChannels t skip lmt d =
     (skipLimit skip lmt (subscribedChannelsPipeline t d),
      logged (OpAggregateChannels t None skip lmt) d)"

definition findByChannels :: "objectId \<Rightarrow> objectId list \<Rightarrow> db \<Rightarrow> subscription list \<times> db" where
  "findByChannels sb chs d =
     (filter (\<lambda>e. subscriber e = sb \<and> channel e \<in> set chs) (subscriptions d),
      logged (OpFind sb chs) d)"

text \<open>
  \<^verbatim>\<open>subscribedByMeSet\<close> is the set of the \<^verbatim>\<open>toString()\<close> of the channels found; a
  channel of the page is marked when the \<^verbatim>\<open>toString()\<close> of its id is in the set.
\<close>

definition markSubscribedByMe :: "string list \<Rightarrow> channelSummary list \<Rightarrow> channelResult list" where
  "markSubscribedByMe subscribedByMeSet chs =
     map (\<lambda>c. \<lparr>ch_id = ch_id c, ch_username = ch_username c, ch_fullName = ch_fullName c,
                ch_avatar = ch_avatar c, totalSubscribers = totalSubscribers c,
                isSubscribedByMe = (toString (ch_id c) \<in> set subscribedByMeSet)\<rparr>) chs"

record channelsPage =
  subscribedChannels :: "channelResult list"
  currentPage :: int
  totalPages :: int
  totalSubscribedChannels :: int

definition getUserSubscribedChannels ::
  "(string \<Rightarrow> objectId option) \<Rightarrow> listRequest \<Rightarrow> db \<Rightarrow> (error + channelsPage response) \<times> db" where
  "getUserSubscribedChannels toObjectId req d =
     (let targetUserId = targetOf req;
          skip = skipOf req
      in case countDocuments toObjectId targetUserId d of
           (Inl e, d1) \<Rightarrow> (Inl e, d1)
         | (Inr totalDocs, d1) \<Rightarrow>
             (case castObjectId toObjectId targetUserId of
                Inl e \<Rightarrow> (Inl e, d1)
              | Inr t \<Rightarrow>
                  (case aggregateChannels t skip (limitNumber req) d1 of
                     (Inl e, d2) \<Rightarrow> (Inl e, d2)
                   | (Inr chans, d2) \<Rightarrow>
                       (let channelIds = map ch_id chans;
                            (subscriptionsByMe, d3) =
                               findByChannels (requestingUserId req) channelIds d2;
                            subscribedByMeSet = map (\<lambda>sub. toString (channel sub)) subscriptionsByMe;
                            result = markSubscribedByMe subscribedByMeSet chans;
                            pages = mathCeilDiv totalDocs (limitNumber req)
                        in (Inr (respond 200 200
                                  \<lparr>subscribedChannels = result, currentPage = pageNumber req,
                                    totalPages = pages, totalSubscribedChannels = totalDocs\<rparr>
                                  ''Fetched subscribed channels successfully''), d3)))))"

section \<open>searchSubscribedChannels\<close>

text \<open>
  \<^verbatim>\<open>{$regex: search, $options: "i"}\<close> is the server's regular expression engine: the
  handler takes it as the argument \<open>regex\<close>, which gives the matcher of a pattern, or
  \<open>None\<close> for a pattern the server rejects.
\<close>

definition matchSearch ::
  "(string \<Rightarrow> bool) \<Rightarrow> (subscription \<times> user) list \<Rightarrow> (subscription \<times> user) list" where
  "matchSearch m rows = filter (\<lambda>(e, u). m (fullName u) \<or> m (username u)) rows"

definition searchRows :: "(string \<Rightarrow> bool) \<Rightarrow> objectId \<Rightarrow> db \<Rightarrow> (subscription \<times> user) list" where
  "searchRows m t d =
     matchSearch m (unwindChannelDetails (lookupChannelDetails d
       (filter (\<lambda>e. subscriber e = t) (subscriptions d))))"

text \<open>\<^verbatim>\<open>$count\<close> gives no document on an empty input, and one holding the count otherwise.\<close>

definition countStage :: "'a list \<Rightarrow> int list" where
  "countStage rows = (if rows = [] then [] else [int (length rows)])"

definition aggregateCount ::
  "(string \<Rightarrow> (string \<Rightarrow> bool) option) \<Rightarrow> objectId \<Rightarrow> string \<Rightarrow> db \<Rightarrow> (error + int list) \<times> db" where
  "aggregateCount regex t pat d =
     (case regex pat of
        None \<Rightarrow> (Inl (MongoServerError ''Regular expression is invalid''),
                 logged (OpAggregateCount t pat) d)
      | Some m \<Rightarrow> (Inr (countStage (searchRows m t d)), logged (OpAggregateCount t pat) d))"

definition aggregateSearch ::
  "(string \<Rightarrow> (string \<Rightarrow> bool) option) \<Rightarrow> objectId \<Rightarrow> string \<Rightarrow> int \<Rightarrow> int \<Rightarrow> db
     \<Rightarrow> (error + channelSummary list) \<times> db" where
  "aggregateSearch regex t pat skip lmt d =
     (case regex pat of
        None \<Rightarrow> (Inl (MongoServerError ''Regular expression is invalid''),
                 logged (OpAggregateChannels t (Some pat) skip lmt) d)
      | Some m \<Rightarrow>
          (skipLimit skip lmt (projectChannel (lookupSubscribers d (searchRows m t d))),
           logged (OpAggregateChannels t (Some pat) skip lmt) d))"

text \<open>\<^verbatim>\<open>search = ""\<close> when the query has none.\<close>

definition searchOf :: "listRequest \<Rightarrow> string" where
  "searchOf req = (case search req of None \<Rightarrow> [] | Some s \<Rightarrow> s)"

definition searchTry ::
  "(string \<Rightarrow> objectId option) \<Rightarrow> (string \<Rightarrow> (string \<Rightarrow> bool) option) \<Rightarrow> listRequest \<Rightarrow> db
     \<Rightarrow> (error + channelsPage response) \<times> db" where
  "searchTry toObjectId regex req d =
     (let pat = searchOf req;
          targetUserId = targetOf req;
          skip = skipOf req
      in case castObjectId toObjectId targetUserId of
           Inl e \<Rightarrow> (Inl e, d)
         | Inr t \<Rightarrow>
             (case aggregateCount regex t pat d of
                (Inl e, d1) \<Rightarrow> (Inl e, d1)
              | (Inr counted, d1) \<Rightarrow>
                  (let totalCount =
                         (case counted of [] \<Rightarrow> 0 | c # cs \<Rightarrow> if c = 0 then 0 else c)
                   in case aggregateSearch regex t pat skip (limitNumber req) d1 of
                        (Inl e, d2) \<Rightarrow> (Inl e, d2)
                      | (Inr chans, d2) \<Rightarrow>
                          (let channelIds = map ch_id chans;
                               (subscriptionsByMe, d3) =
                                  findByChannels (requestingUserId req) channelIds d2;
                               subscribedByMeSet =
                                  map (\<lambda>sub. toString (channel sub)) subscriptionsByMe;
                               result = markSubscribedByMe subscribedByMeSet chans;
                               pages = mathCeilDiv totalCount (limitNumber req)
                           in (Inr (respond 200 200
                                     \<lparr>subscribedChannels = result, currentPage = pageNumber req,
                                       totalPages = pages, totalSubscribedChannels = totalCount\<rparr>
                                     ''Searched subscribed channels successfully''), d3)))))"

text \<open>The \<^verbatim>\<open>catch\<close>: whatever the body threw becomes an \<^verbatim>\<open>ApiError\<close> 500.\<close>

definition searchSubscribedChannels ::
  "(string \<Rightarrow> objectId option) \<Rightarrow> (string \<Rightarrow> (string \<Rightarrow> bool) option) \<Rightarrow> listRequest \<Rightarrow> db
     \<Rightarrow> (error + channelsPage response) \<times> db" where
  "searchSubscribedChannels toObjectId regex req d =
     (case searchTry toObjectId regex req d of
        (Inl e, d1) \<Rightarrow>
          (Inl (ApiError 500
             (if errorMessage e \<noteq> [] then errorMessage e
              else ''Something went wrong while searching for subscribed channels'')), d1)
      | (Inr r, d1) \<Rightarrow> (Inr r, d1))"

text \<open>The \<^verbatim>\<open>totalSubscribedChannels\<close> of an answer, when there is one.\<close>

definition totalOf :: "(error + channelsPage response) \<times> db \<Rightarrow> int option" where
  "totalOf x =
     (case fst x of Inl e \<Rightarrow> None | Inr r \<Rightarrow> Some (totalSubscribedChannels (payload r)))"

section \<open>Example data\<close>

text \<open>
  A cast in the shape of the driver's (24 hexadecimal digits, read whatever their case),
  a matcher for patterns without metacharacters (substring, ignoring the case of
  letters), three users and the states the closed theorems below are evaluated on.
\<close>

definition lowerChar :: "char \<Rightarrow> char" where
  "lowerChar c =
     (case map_of (zip ''ABCDEFGHIJKLMNOPQRSTUVWXYZ'' ''abcdefghijklmnopqrstuvwxyz'') c of
        None \<Rightarrow> c
      | Some l \<Rightarrow> l)"

definition hex24 :: "string \<Rightarrow> bool" where
  "hex24 s = (length s = 24 \<and> list_all (\<lambda>c. c \<in> set ''0123456789abcdefABCDEF'') s)"

definition hexObjectId :: "string \<Rightarrow> objectId option" where
  "hexObjectId s = (if hex24 s then Some (ObjectId (map lowerChar s)) else None)"

definition idA :: objectId where "idA = ObjectId ''64b5f0c2a1d3e4f5a6b7c8d1''"
definition idB :: objectId where "idB = ObjectId ''64b5f0c2a1d3e4f5a6b7c8d2''"
definition idC :: objectId where "idC = ObjectId ''64b5f0c2a1d3e4f5a6b7c8d3''"
definition idE1 :: objectId where "idE1 = ObjectId ''64b5f0c2a1d3e4f5a6b7c8e1''"
definition idE2 :: objectId where "idE2 = ObjectId ''64b5f0c2a1d3e4f5a6b7c8e2''"
definition idE3 :: objectId where "idE3 = ObjectId ''64b5f0c2a1d3e4f5a6b7c8e3''"
definition idNew :: objectId where "idNew = ObjectId ''64b5f0c2a1d3e4f5a6b7c8ff''"

text \<open>The ids of A and B as a request may write them, in upper case.\<close>

definition upperA :: string where "upperA = ''64B5F0C2A1D3E4F5A6B7C8D1''"
definition upperB :: string where "upperB = ''64B5F0C2A1D3E4F5A6B7C8D2''"

definition userA :: user where
  "userA = \<lparr>uid = idA, username = ''alice'', fullName = ''Alice A'', avatar = ''a.png''\<rparr>"
definition userB :: user where
  "userB = \<lparr>uid = idB, username = ''bob'', fullName = ''Bob B'', avatar = ''b.png''\<rparr>"
definition userC :: user where
  "userC = \<lparr>uid = idC, username = ''carol'', fullName = ''Carol C'', avatar = ''c.png''\<rparr>"

definition edgeAB :: subscription where
  "edgeAB = \<lparr>sid = idE1, subscriber = idA, channel = idB\<rparr>"
definition edgeCB :: subscription where
  "edgeCB = \<lparr>sid = idE2, subscriber = idC, channel = idB\<rparr>"
definition edgeAC :: subscription where
  "edgeAC = \<lparr>sid = idE3, subscriber = idA, channel = idC\<rparr>"

definition dbEmpty :: db where
  "dbEmpty = \<lparr>users = [userA, userB, userC], subscriptions = [], oplog = []\<rparr>"
definition dbAB :: db where
  "dbAB = \<lparr>users = [userA, userB, userC], subscriptions = [edgeAB, edgeCB], oplog = []\<rparr>"
definition dbTwo :: db where
  "dbTwo = \<lparr>users = [userA, userB, userC], subscriptions = [edgeAB, edgeAC, edgeCB], oplog = []\<rparr>"
definition dbDangling :: db where
  "dbDangling = \<lparr>users = [userA], subscriptions = [edgeAB], oplog = []\<rparr>"

fun startsWith :: "string \<Rightarrow> string \<Rightarrow> bool" where
  "startsWith [] s = True"
| "startsWith (p # ps) [] = False"
| "startsWith (p # ps) (c # cs) = (p = c \<and> startsWith ps cs)"

fun containsStr :: "string \<Rightarrow> string \<Rightarrow> bool" where
  "containsStr p [] = (p = [])"
| "containsStr p (c # cs) = (startsWith p (c # cs) \<or> containsStr p cs)"

definition literalRegex :: "string \<Rightarrow> (string \<Rightarrow> bool) option" where
  "literalRegex p = Some (\<lambda>s. containsStr (map lowerChar p) (map lowerChar s))"

section \<open>Properties\<close>

lemma find_None_conv: "(find P xs = None) = (\<not> (\<exists>x \<in> set xs. P x))"
  by (induction xs) auto

lemma find_Some_conv: "(\<exists>y. find P xs = Some y) = (\<exists>x \<in> set xs. P x)"
  by (induction xs) auto

lemma find_Some_D: "find P xs = Some x \<Longrightarrow> x \<in> set xs \<and> P x"
  by (induction xs) (auto split: if_splits)

lemma find_append_None: "find P xs = None \<Longrightarrow> find P (xs @ ys) = find P ys"
  by (induction xs) (auto split: if_splits)

lemma removeFirst_remove1:
  "distinct (map sid xs) \<Longrightarrow> e \<in> set xs \<Longrightarrow> removeFirst (sid e) xs = remove1 e xs"
  by (induction xs) (auto simp: image_iff)

lemma removeFirst_append_new:
  "i \<notin> sid ` set xs \<Longrightarrow> sid e = i \<Longrightarrow> removeFirst i (xs @ [e]) = xs"
  by (induction xs) auto

lemma distinct_sid_distinct: "distinct (map sid xs) \<Longrightarrow> distinct xs"
  by (rule distinct_map [THEN iffD1, THEN conjunct1])

lemma logged_simps:
  "users (logged q d) = users d"
  "subscriptions (logged q d) = subscriptions d"
  "oplog (logged q d) = oplog d @ [q]"
  by (simp_all add: logged_def)

subsection \<open>The example cast and ids\<close>

lemma hexObjectId_lower:
  "hexObjectId (toString idA) = Some idA" "hexObjectId (toString idB) = Some idB"
  "hexObjectId (toString idC) = Some idC"
  by (simp_all add: hexObjectId_def hex24_def lowerChar_def idA_def idB_def idC_def)

lemma hexObjectId_upper:
  "hexObjectId upperA = Some idA" "hexObjectId upperB = Some idB"
  by (simp_all add: hexObjectId_def hex24_def lowerChar_def idA_def idB_def upperA_def upperB_def)

lemma hexObjectId_xyz: "hexObjectId ''xyz'' = None"
  by (simp add: hexObjectId_def hex24_def)

lemma strings_nonempty: "toString idA \<noteq> []" "toString idB \<noteq> []" "upperA \<noteq> []" "upperB \<noteq> []"
  by (simp_all add: idA_def idB_def upperA_def upperB_def)

lemma ids_distinct:
  "idA \<noteq> idB" "idA \<noteq> idC" "idB \<noteq> idC" "idNew \<noteq> idA" "idNew \<noteq> idB" "idNew \<noteq> idC"
  "idB \<noteq> idA" "idC \<noteq> idA" "idC \<noteq> idB"
  "idE1 \<noteq> idE2" "idE1 \<noteq> idE3" "idE2 \<noteq> idE3" "idNew \<noteq> idE1" "idNew \<noteq> idE2" "idNew \<noteq> idE3"
  by (simp_all add: idA_def idB_def idC_def idNew_def idE1_def idE2_def idE3_def)

subsection \<open>checkSubscriptionStatus\<close>

lemma findOne_cast:
  "toObjectId s = Some c \<Longrightarrow>
   findOne toObjectId (IdString s) sb d =
     (Inr (find (\<lambda>e. channel e = c \<and> subscriber e = sb) (subscriptions d)),
      logged (OpFindOne c sb) d)"
  by (simp add: findOne_def)

text \<open>
  C2. The status check fails with \<^verbatim>\<open>ApiError\<close> 400 when \<^verbatim>\<open>channelId\<close> is absent, empty
  or no ObjectId, and then the database, its log of issued queries included, is what it
  was: no store access happened. Otherwise, with \<open>c\<close> the ObjectId the string denotes,
  the answer is status 200 with the body \<^verbatim>\<open>{isSubscribed}\<close>, true exactly when an edge
  with channel \<open>c\<close> and the requester as subscriber exists; both collections are
  unchanged, and the one query issued is the lookup.
\<close>

theorem checkSubscriptionStatus_spec:
  "(\<not> (\<exists>s c. channelId req = Some s \<and> s \<noteq> [] \<and> toObjectId s = Some c) \<longrightarrow>
      (\<exists>m. checkSubscriptionStatus toObjectId req d = (Inl (ApiError 400 m), d)))
   \<and> (\<forall>s c. channelId req = Some s \<and> s \<noteq> [] \<and> toObjectId s = Some c \<longrightarrow>
      (\<exists>r d'. checkSubscriptionStatus toObjectId req d = (Inr r, d')
         \<and> httpStatus r = 200 \<and> statusCode r = 200
         \<and> payload r = [''isSubscribed'' \<mapsto> JBool
              (\<exists>e \<in> set (subscriptions d). channel e = c \<and> subscriber e = requester req)]
         \<and> users d' = users d \<and> subscriptions d' = subscriptions d
         \<and> oplog d' = oplog d @ [OpFindOne c (requester req)]))"
proof (intro conjI allI impI)
  assume bad: "\<not> (\<exists>s c. channelId req = Some s \<and> s \<noteq> [] \<and> toObjectId s = Some c)"
  show "\<exists>m. checkSubscriptionStatus toObjectId req d = (Inl (ApiError 400 m), d)"
  proof (cases "channelId req")
    case None
    then show ?thesis by (simp add: checkSubscriptionStatus_def)
  next
    case (Some s)
    with bad have "s = [] \<or> toObjectId s = None" by auto
    with Some show ?thesis by (auto simp: checkSubscriptionStatus_def isValidObjectId_def)
  qed
next
  fix s c
  assume ok: "channelId req = Some s \<and> s \<noteq> [] \<and> toObjectId s = Some c"
  then have f: "findOne toObjectId (IdString s) (requester req) d =
     (Inr (find (\<lambda>e. channel e = c \<and> subscriber e = requester req) (subscriptions d)),
      logged (OpFindOne c (requester req)) d)"
    by (simp add: findOne_cast)
  from ok show "\<exists>r d'. checkSubscriptionStatus toObjectId req d = (Inr r, d')
         \<and> httpStatus r = 200 \<and> statusCode r = 200
         \<and> payload r = [''isSubscribed'' \<mapsto> JBool
              (\<exists>e \<in> set (subscriptions d). channel e = c \<and> subscriber e = requester req)]
         \<and> users d' = users d \<and> subscriptions d' = subscriptions d
         \<and> oplog d' = oplog d @ [OpFindOne c (requester req)]"
    by (simp add: checkSubscriptionStatus_def isValidObjectId_def f logged_simps respond_def
        find_Some_conv)
qed

theorem checkSubscriptionStatus_spec_witness:
  "(\<exists>m. checkSubscriptionStatus hexObjectId \<lparr>channelId = Some ''xyz'', requester = idA\<rparr> dbAB
          = (Inl (ApiError 400 m), dbAB))
   \<and> (\<exists>r d'. checkSubscriptionStatus hexObjectId \<lparr>channelId = Some upperB, requester = idA\<rparr> dbAB
          = (Inr r, d')
        \<and> httpStatus r = 200 \<and> payload r = [''isSubscribed'' \<mapsto> JBool True]
        \<and> subscriptions d' = subscriptions dbAB \<and> oplog d' = [OpFindOne idB idA])"
proof -
  let ?bad = "\<lparr>channelId = Some ''xyz'', requester = idA\<rparr>"
  let ?ok = "\<lparr>channelId = Some upperB, requester = idA\<rparr>"
  have b: "\<not> (\<exists>s c. channelId ?bad = Some s \<and> s \<noteq> [] \<and> hexObjectId s = Some c)"
    by (simp add: hexObjectId_xyz)
  have o: "channelId ?ok = Some upperB \<and> upperB \<noteq> [] \<and> hexObjectId upperB = Some idB"
    by (simp add: hexObjectId_upper strings_nonempty)
  have e: "\<exists>e \<in> set (subscriptions dbAB). channel e = idB \<and> subscriber e = requester ?ok"
    by (simp add: dbAB_def edgeAB_def)
  have l: "oplog dbAB = []" by (simp add: dbAB_def)
  from checkSubscriptionStatus_spec [where req = ?bad and toObjectId = hexObjectId and d = dbAB] b
  have 1: "\<exists>m. checkSubscriptionStatus hexObjectId ?bad dbAB = (Inl (ApiError 400 m), dbAB)"
    by blast
  from checkSubscriptionStatus_spec [where req = ?ok and toObjectId = hexObjectId and d = dbAB] o
  obtain r d' where 2: "checkSubscriptionStatus hexObjectId ?ok dbAB = (Inr r, d')"
    "httpStatus r = 200"
    "payload r = [''isSubscribed'' \<mapsto> JBool
       (\<exists>e \<in> set (subscriptions dbAB). channel e = idB \<and> subscriber e = requester ?ok)]"
    "subscriptions d' = subscriptions dbAB"
    "oplog d' = oplog dbAB @ [OpFindOne idB (requester ?ok)]"
    by blast
  from 2 e l have "checkSubscriptionStatus hexObjectId ?ok dbAB = (Inr r, d')
        \<and> httpStatus r = 200 \<and> payload r = [''isSubscribed'' \<mapsto> JBool True]
        \<and> subscriptions d' = subscriptions dbAB \<and> oplog d' = [OpFindOne idB idA]"
    by simp
  with 1 show ?thesis by blast
qed

subsection \<open>toggleSubscriptionStatus\<close>

text \<open>
  What a toggle does to the store and which status it answers with, on a request whose
  \<^verbatim>\<open>channelId\<close> denotes the ObjectId \<open>c\<close>, in a collection whose documents have distinct
  ids: an existing edge from the requester to \<open>c\<close> is removed (200), and otherwise the
  edge is appended (201).
\<close>

lemma toggleSubscriptionStatus_effect:
  assumes c: "channelId req = Some s" "s \<noteq> []" "toObjectId s = Some c"
    and ids: "distinct (map sid (subscriptions d))"
  shows "((\<exists>e \<in> set (subscriptions d). channel e = c \<and> subscriber e = requester req) \<longrightarrow>
            (\<exists>e r d'. e \<in> set (subscriptions d) \<and> channel e = c \<and> subscriber e = requester req
               \<and> toggleSubscriptionStatus toObjectId newId req d = (Inr r, d')
               \<and> httpStatus r = 200 \<and> statusCode r = 200
               \<and> payload r = [''isSubscribed'' \<mapsto> JBool False]
               \<and> subscriptions d' = remove1 e (subscriptions d)
               \<and> e \<notin> set (subscriptions d') \<and> users d' = users d))
       \<and> (\<not> (\<exists>e \<in> set (subscriptions d). channel e = c \<and> subscriber e = requester req) \<longrightarrow>
            (\<exists>e r d'. subscriber e = requester req \<and> channel e = c \<and> sid e = newId
               \<and> toggleSubscriptionStatus toObjectId newId req d = (Inr r, d')
               \<and> httpStatus r = 201 \<and> statusCode r = 201
               \<and> payload r = (documentProps e)(''isSubscribed'' \<mapsto> JBool True)
               \<and> subscriptions d' = subscriptions d @ [e] \<and> users d' = users d))"
proof (intro conjI impI)
  let ?P = "\<lambda>e. channel e = c \<and> subscriber e = requester req"
  assume "\<exists>e \<in> set (subscriptions d). ?P e"
  then obtain e where f: "find ?P (subscriptions d) = Some e"
    using find_Some_conv [of ?P "subscriptions d"] by blast
  then have e: "e \<in> set (subscriptions d)" "?P e"
    using find_Some_D [of ?P "subscriptions d" e] by blast+
  have r: "removeFirst (sid e) (subscriptions d) = remove1 e (subscriptions d)"
    using ids e(1) by (rule removeFirst_remove1)
  have n: "e \<notin> set (remove1 e (subscriptions d))"
    using distinct_sid_distinct [OF ids] by simp
  show "\<exists>e r d'. e \<in> set (subscriptions d) \<and> channel e = c \<and> subscriber e = requester req
               \<and> toggleSubscriptionStatus toObjectId newId req d = (Inr r, d')
               \<and> httpStatus r = 200 \<and> statusCode r = 200
               \<and> payload r = [''isSubscribed'' \<mapsto> JBool False]
               \<and> subscriptions d' = remove1 e (subscriptions d)
               \<and> e \<notin> set (subscriptions d') \<and> users d' = users d"
    using c f e r n
    by (intro exI [of _ e])
       (simp add: toggleSubscriptionStatus_def toggleUnsubscribe_def isValidObjectId_def
          findOne_cast deleteOne_def logged_simps respond_def objectTruthy_def Let_def)
next
  let ?P = "\<lambda>e. channel e = c \<and> subscriber e = requester req"
  assume "\<not> (\<exists>e \<in> set (subscriptions d). ?P e)"
  then have f: "find ?P (subscriptions d) = None"
    using find_None_conv [of ?P "subscriptions d"] by blast
  show "\<exists>e r d'. subscriber e = requester req \<and> channel e = c \<and> sid e = newId
               \<and> toggleSubscriptionStatus toObjectId newId req d = (Inr r, d')
               \<and> httpStatus r = 201 \<and> statusCode r = 201
               \<and> payload r = (documentProps e)(''isSubscribed'' \<mapsto> JBool True)
               \<and> subscriptions d' = subscriptions d @ [e] \<and> users d' = users d"
    using c f
    by (intro exI [of _ "\<lparr>sid = newId, subscriber = requester req, channel = c\<rparr>"])
       (simp add: toggleSubscriptionStatus_def toggleSubscribe_def isValidObjectId_def
          findOne_cast create_def logged_simps respond_def objectTruthy_def Let_def)
qed

text \<open>
  C1. A subscribe of A to B on a store without edges: the edge is created and the status
  is 201, but the body is the spread of the Mongoose document, not of the edge's data. It
  has \<^verbatim>\<open>isSubscribed: true\<close> and the document's own properties, with the edge under
  \<^verbatim>\<open>_doc\<close>; it has no \<^verbatim>\<open>_id\<close>, \<^verbatim>\<open>subscriber\<close> or \<^verbatim>\<open>channel\<close>.
\<close>

theorem toggleSubscriptionStatus_spread:
  "\<exists>r d'. toggleSubscriptionStatus hexObjectId idNew
             \<lparr>channelId = Some upperB, requester = idA\<rparr> dbEmpty = (Inr r, d')
      \<and> httpStatus r = 201
      \<and> subscriptions d' = [\<lparr>sid = idNew, subscriber = idA, channel = idB\<rparr>]
      \<and> payload r ''isSubscribed'' = Some (JBool True)
      \<and> payload r ''_doc'' = Some (JFields \<lparr>sid = idNew, subscriber = idA, channel = idB\<rparr>)
      \<and> payload r ''$__'' = Some JInternal
      \<and> payload r ''_id'' = None \<and> payload r ''subscriber'' = None
      \<and> payload r ''channel'' = None"
  by (simp add: toggleSubscriptionStatus_def toggleSubscribe_def isValidObjectId_def
      findOne_cast hexObjectId_upper strings_nonempty create_def logged_simps respond_def
      objectTruthy_def documentProps_def dbEmpty_def Let_def)

text \<open>
  The unsubscribe branch answers 200 whatever \<^verbatim>\<open>deleteOne\<close> reports: the test
  \<^verbatim>\<open>!deleteSubscription\<close> is on the report object, which is truthy also when its
  \<^verbatim>\<open>deletedCount\<close> is 0.
\<close>

lemma toggleUnsubscribe_succeeds:
  "\<exists>d'. toggleUnsubscribe e d
     = (Inr (respond 200 200 [''isSubscribed'' \<mapsto> JBool False] ''Unsubscribed successfully.''), d')"
  by (simp add: toggleUnsubscribe_def deleteOne_def objectTruthy_def)

text \<open>
  C9. A run in which the deletion has no effect: the requester's first request finds
  the edge, a second request of the same requester toggles (and deletes the edge)
  before the first one resumes, and the first one's \<^verbatim>\<open>deleteOne\<close> then removes nothing
  (\<^verbatim>\<open>deletedCount\<close> 0). The branch still answers 200 with \<^verbatim>\<open>isSubscribed: false\<close>; it
  does not throw the \<^verbatim>\<open>ApiError\<close> 500 its own message announces.
\<close>

theorem toggleUnsubscribe_no_effect:
  "(case findOne hexObjectId (IdString upperB) idA dbAB of (found, d1) \<Rightarrow>
      case toggleSubscriptionStatus hexObjectId idNew \<lparr>channelId = Some upperB, requester = idA\<rparr> d1 of
        (r2, d2) \<Rightarrow>
          found = Inr (Some edgeAB)
          \<and> deletedCount (fst (deleteOne (sid edgeAB) d2)) = 0
          \<and> fst (toggleUnsubscribe edgeAB d2)
               = Inr (respond 200 200 [''isSubscribed'' \<mapsto> JBool False]
                       ''Unsubscribed successfully.''))"
  using ids_distinct
  by (simp add: findOne_cast hexObjectId_upper strings_nonempty toggleSubscriptionStatus_def
      toggleUnsubscribe_def isValidObjectId_def deleteOne_def logged_simps objectTruthy_def
      dbAB_def edgeAB_def edgeCB_def)

text \<open>
  C4. From a state with no edge from the requester to the channel the request names, and
  with the generated id not in use: the first toggle subscribes (201), the status check
  after it says \<^verbatim>\<open>isSubscribed: true\<close>, the second toggle unsubscribes (200), the status
  check after it says \<^verbatim>\<open>isSubscribed: false\<close>, and the collections are what they were at
  the start, with no edge from the requester to the channel.
\<close>

theorem toggle_twice:
  assumes c: "channelId req = Some s" "s \<noteq> []" "toObjectId s = Some c"
    and none: "\<not> (\<exists>e \<in> set (subscriptions d). channel e = c \<and> subscriber e = requester req)"
    and fresh: "n1 \<notin> sid ` set (subscriptions d)"
  shows "\<exists>r1 d1 s1 d2 r3 d3 s4 d4.
           toggleSubscriptionStatus toObjectId n1 req d = (Inr r1, d1)
         \<and> httpStatus r1 = 201 \<and> payload r1 ''isSubscribed'' = Some (JBool True)
         \<and> checkSubscriptionStatus toObjectId req d1 = (Inr s1, d2)
         \<and> payload s1 = [''isSubscribed'' \<mapsto> JBool True]
         \<and> toggleSubscriptionStatus toObjectId n2 req d2 = (Inr r3, d3)
         \<and> httpStatus r3 = 200 \<and> payload r3 = [''isSubscribed'' \<mapsto> JBool False]
         \<and> checkSubscriptionStatus toObjectId req d3 = (Inr s4, d4)
         \<and> payload s4 = [''isSubscribed'' \<mapsto> JBool False]
         \<and> subscriptions d4 = subscriptions d \<and> users d4 = users d
         \<and> \<not> (\<exists>e \<in> set (subscriptions d4). channel e = c \<and> subscriber e = requester req)"
proof -
  let ?P = "\<lambda>e. channel e = c \<and> subscriber e = requester req"
  let ?e = "\<lparr>sid = n1, subscriber = requester req, channel = c\<rparr>"
  have f0: "find ?P (subscriptions d) = None"
    using none find_None_conv [of ?P "subscriptions d"] by blast
  have f1: "find ?P (subscriptions d @ [?e]) = Some ?e"
    using find_append_None [OF f0, of "[?e]"] by simp
  have rm: "removeFirst n1 (subscriptions d @ [?e]) = subscriptions d"
    using fresh by (simp add: removeFirst_append_new)
  show ?thesis
    using c none f0 f1 rm
    by (simp add: toggleSubscriptionStatus_def toggleSubscribe_def toggleUnsubscribe_def
        checkSubscriptionStatus_def isValidObjectId_def findOne_cast create_def deleteOne_def
        logged_simps respond_def objectTruthy_def documentProps_def Let_def)
qed

theorem toggle_twice_witness:
  "\<exists>r1 d1 s1 d2 r3 d3 s4 d4.
      toggleSubscriptionStatus hexObjectId idNew \<lparr>channelId = Some upperA, requester = idB\<rparr> dbAB
        = (Inr r1, d1)
    \<and> httpStatus r1 = 201 \<and> payload r1 ''isSubscribed'' = Some (JBool True)
    \<and> checkSubscriptionStatus hexObjectId \<lparr>channelId = Some upperA, requester = idB\<rparr> d1
        = (Inr s1, d2)
    \<and> payload s1 = [''isSubscribed'' \<mapsto> JBool True]
    \<and> toggleSubscriptionStatus hexObjectId idE1 \<lparr>channelId = Some upperA, requester = idB\<rparr> d2
        = (Inr r3, d3)
    \<and> httpStatus r3 = 200 \<and> payload r3 = [''isSubscribed'' \<mapsto> JBool False]
    \<and> checkSubscriptionStatus hexObjectId \<lparr>channelId = Some upperA, requester = idB\<rparr> d3
        = (Inr s4, d4)
    \<and> payload s4 = [''isSubscribed'' \<mapsto> JBool False]
    \<and> subscriptions d4 = [edgeAB, edgeCB] \<and> users d4 = [userA, userB, userC]"
proof -
  let ?req = "\<lparr>channelId = Some upperA, requester = idB\<rparr>"
  have c: "channelId ?req = Some upperA" by simp
  have none: "\<not> (\<exists>e \<in> set (subscriptions dbAB). channel e = idA \<and> subscriber e = requester ?req)"
    using ids_distinct by (simp add: dbAB_def edgeAB_def edgeCB_def)
  have fresh: "idNew \<notin> sid ` set (subscriptions dbAB)"
    using ids_distinct by (simp add: dbAB_def edgeAB_def edgeCB_def)
  have s: "subscriptions dbAB = [edgeAB, edgeCB]" "users dbAB = [userA, userB, userC]"
    by (simp_all add: dbAB_def)
  from toggle_twice [where toObjectId = hexObjectId and req = ?req and s = upperA and c = idA
      and d = dbAB and ?n1.0 = idNew and ?n2.0 = idE1,
      OF c strings_nonempty(3) hexObjectId_upper(1) none fresh]
  show ?thesis unfolding s by blast
qed

subsection \<open>getChannelSubscribersList\<close>

lemma getChannelSubscribersList_result:
  "newObjectId toObjectId generated (userId req) = Inr i \<Longrightarrow>
   getChannelSubscribersList toObjectId generated req d =
     ((if subscribersPipeline i d = []
       then Inl (ApiError 404 ''No subscribers found for this channel.'')
       else Inr (respond 200 200 (subscribersPipeline i d) ''Subscribers fetched successfully.'')),
      logged (OpAggregateSubscribers i) d)"
  by (simp add: getChannelSubscribersList_def aggregateSubscribers_def Let_def)

lemma subscribersPipeline_no_user:
  "i \<notin> uid ` set (users d) \<Longrightarrow> subscribersPipeline i d = []"
proof -
  assume "i \<notin> uid ` set (users d)"
  then have "filter (\<lambda>u. uid u = i) (users d) = []"
    by (auto simp: filter_empty_conv)
  then show ?thesis by (simp add: subscribersPipeline_def)
qed

lemma getChannelSubscribersList_omitted:
  "userId req = None \<Longrightarrow> generated \<notin> uid ` set (users d) \<Longrightarrow>
   fst (getChannelSubscribersList toObjectId generated req d)
     = Inl (ApiError 404 ''No subscribers found for this channel.'')"
  by (simp add: getChannelSubscribersList_result newObjectId_def subscribersPipeline_no_user)

text \<open>
  When the channel is the id of one user document, the pipeline is the join of the
  channel's edges, in collection order, with the user documents of their subscribers.
\<close>

lemma subscribersPipeline_join:
  assumes "filter (\<lambda>x. uid x = i) (users d) = [c]"
  shows "subscribersPipeline i d =
     concat (map (\<lambda>e. map (\<lambda>x. \<lparr>sub_subscriber = uid x, sub_username = username x,
                                  sub_fullName = fullName x, sub_avatar = avatar x\<rparr>)
                        (filter (\<lambda>x. uid x = subscriber e) (users d)))
                 (filter (\<lambda>e. channel e = i) (subscriptions d)))"
proof -
  have "c \<in> set (filter (\<lambda>x. uid x = i) (users d))" using assms by simp
  then have "uid c = i" by simp
  then show ?thesis
    using assms by (simp add: subscribersPipeline_def map_concat comp_def case_prod_beta)
qed

lemma subscribersPipeline_idB:
  "subscribersPipeline idB dbAB =
     [\<lparr>sub_subscriber = idA, sub_username = ''alice'', sub_fullName = ''Alice A'', sub_avatar = ''a.png''\<rparr>,
      \<lparr>sub_subscriber = idC, sub_username = ''carol'', sub_fullName = ''Carol C'', sub_avatar = ''c.png''\<rparr>]"
  using ids_distinct
  by (simp add: subscribersPipeline_def dbAB_def userA_def userB_def userC_def edgeAB_def edgeCB_def)

text \<open>
  C3. Without \<^verbatim>\<open>userId\<close> the pipeline matches \<^verbatim>\<open>new ObjectId(undefined)\<close>, an id the driver
  has just generated, and not \<^verbatim>\<open>targetUserId\<close>, which the handler computes and never
  uses. For the requester B, who has the subscribers A and C, the listing without
  \<^verbatim>\<open>userId\<close> fails with 404, and the listing with \<^verbatim>\<open>userId\<close> = B returns both.
\<close>

theorem getChannelSubscribersList_omitted_userId:
  "fst (getChannelSubscribersList hexObjectId idNew
          \<lparr>requestingUserId = idB, userId = None, page = None, limit = None, search = None\<rparr> dbAB)
     = Inl (ApiError 404 ''No subscribers found for this channel.'')
   \<and> fst (getChannelSubscribersList hexObjectId idNew
          \<lparr>requestingUserId = idB, userId = Some (toString idB), page = None, limit = None,
             search = None\<rparr> dbAB)
     = Inr (respond 200 200
         [\<lparr>sub_subscriber = idA, sub_username = ''alice'', sub_fullName = ''Alice A'', sub_avatar = ''a.png''\<rparr>,
          \<lparr>sub_subscriber = idC, sub_username = ''carol'', sub_fullName = ''Carol C'', sub_avatar = ''c.png''\<rparr>]
         ''Subscribers fetched successfully.'')"
proof -
  have n: "idNew \<notin> uid ` set (users dbAB)"
    using ids_distinct by (simp add: dbAB_def userA_def userB_def userC_def)
  have 1: "fst (getChannelSubscribersList hexObjectId idNew
          \<lparr>requestingUserId = idB, userId = None, page = None, limit = None, search = None\<rparr> dbAB)
     = Inl (ApiError 404 ''No subscribers found for this channel.'')"
    using n by (simp add: getChannelSubscribersList_omitted)
  have 2: "newObjectId hexObjectId idNew (userId
      \<lparr>requestingUserId = idB, userId = Some (toString idB), page = None, limit = None,
         search = None\<rparr>) = Inr idB"
    by (simp add: newObjectId_def hexObjectId_lower)
  show ?thesis
    using 1 by (simp add: getChannelSubscribersList_result [OF 2] subscribersPipeline_idB)
qed




subsection \<open>Numbers\<close>

lemma toDouble_safe: "\<bar>n\<bar> < 2 ^ 53 \<Longrightarrow> toDouble n = n"
  by (auto simp: toDouble_def roundEven_def nat_less_iff)

text \<open>
  Beyond \<open>2^53\<close> the conversion rounds: \<open>2^53 + 1\<close> is read as \<open>2^53\<close>, and a request for
  that page with limit 1 has \<^verbatim>\<open>currentPage\<close> \<open>2^53\<close> and skips \<open>2^53 - 1\<close>.
\<close>

lemma bitlen_54: "bitlen 9007199254740993 = 54"
  by simp

lemma toDouble_rounds: "toDouble 9007199254740993 = 9007199254740992"
  by (simp add: toDouble_def roundEven_def bitlen_54)

lemma request_rounds:
  "pageNumber \<lparr>requestingUserId = u, userId = None, page = Some 9007199254740993,
      limit = Some 1, search = None\<rparr> = 9007199254740992"
  "skipOf \<lparr>requestingUserId = u, userId = None, page = Some 9007199254740993,
      limit = Some 1, search = None\<rparr> = 9007199254740991"
  by (simp_all add: pageNumber_def limitNumber_def skipOf_def jsTimes_def jsMinus_def pageOr_def
      toDouble_rounds toDouble_safe)



subsection \<open>The two listings of subscribed channels\<close>

lemma containsStr_Nil: "containsStr [] s"
  by (induction s) auto

lemma toString_eq: "(toString a = toString b) = (a = b)"
  by (cases a; cases b) simp

lemma pipeline_logged:
  "subscribedChannelsPipeline t (logged q d) = subscribedChannelsPipeline t d"
  "lookupSubscribers (logged q d) = lookupSubscribers d"
  "lookupChannelDetails (logged q d) = lookupChannelDetails d"
  "searchRows m t (logged q d) = searchRows m t d"
  by (simp_all add: subscribedChannelsPipeline_def lookupSubscribers_def lookupChannelDetails_def
      searchRows_def logged_simps fun_eq_iff)


lemma map_ch_id_mark: "map ch_id (markSubscribedByMe s chans) = map ch_id chans"
  by (simp add: markSubscribedByMe_def comp_def)

lemma mark_flag:
  assumes "c \<in> set (markSubscribedByMe
      (map (\<lambda>sub. toString (channel sub))
         (filter (\<lambda>e. subscriber e = me \<and> channel e \<in> set (map ch_id chans)) subs))
      chans)"
  shows "isSubscribedByMe c = (\<exists>e \<in> set subs. subscriber e = me \<and> channel e = ch_id c)"
proof -
  let ?S = "map (\<lambda>sub. toString (channel sub))
     (filter (\<lambda>e. subscriber e = me \<and> channel e \<in> set (map ch_id chans)) subs)"
  from assms obtain c0 where c0: "c0 \<in> set chans" "ch_id c = ch_id c0"
    "isSubscribedByMe c = (toString (ch_id c0) \<in> set ?S)"
    by (auto simp: markSubscribedByMe_def)
  have "(toString (ch_id c0) \<in> set ?S)
      = (\<exists>e \<in> set subs. subscriber e = me \<and> channel e = ch_id c0)"
    using c0(1) by (auto simp: image_iff toString_eq)
  with c0 show ?thesis by simp
qed

lemma pipeline_edge:
  "c \<in> set (subscribedChannelsPipeline t d) \<Longrightarrow>
   \<exists>e \<in> set (subscriptions d). subscriber e = t \<and> channel e = ch_id c"
  by (auto simp: subscribedChannelsPipeline_def projectChannel_def lookupSubscribers_def
      unwindChannelDetails_def lookupChannelDetails_def)


lemma skipLimit_InrD:
  "skipLimit skip lmt xs = Inr ys \<Longrightarrow> 0 \<le> skip \<and> 0 < lmt \<and> ys = take (nat lmt) (drop (nat skip) xs)"
  by (auto simp: skipLimit_def split: if_splits)

lemma skipLimit_isl: "isl (skipLimit a b xs) = isl (skipLimit a b ys)"
  by (simp add: skipLimit_def)

text \<open>
  The listing, when the target is an ObjectId and the server accepts the \<^verbatim>\<open>$skip\<close> and
  \<^verbatim>\<open>$limit\<close> stages: the answer and the queries issued, in full.
\<close>

lemma getUserSubscribedChannels_result:
  assumes t: "castObjectId toObjectId (targetOf req) = Inr t"
    and s: "skipLimit (skipOf req) (limitNumber req) (subscribedChannelsPipeline t d) = Inr chans"
  shows "getUserSubscribedChannels toObjectId req d =
    (Inr (respond 200 200
       \<lparr>subscribedChannels =
          markSubscribedByMe
            (map (\<lambda>sub. toString (channel sub))
               (filter (\<lambda>e. subscriber e = requestingUserId req
                            \<and> channel e \<in> set (map ch_id chans)) (subscriptions d)))
            chans,
        currentPage = pageNumber req,
        totalPages = mathCeilDiv (int (length (filter (\<lambda>e. subscriber e = t) (subscriptions d))))
                       (limitNumber req),
        totalSubscribedChannels = int (length (filter (\<lambda>e. subscriber e = t) (subscriptions d)))\<rparr>
       ''Fetched subscribed channels successfully''),
     logged (OpFind (requestingUserId req) (map ch_id chans))
       (logged (OpAggregateChannels t None (skipOf req) (limitNumber req))
         (logged (OpCountDocuments t) d)))"
  using t s
  by (simp add: getUserSubscribedChannels_def countDocuments_def aggregateChannels_def
      findByChannels_def logged_simps pipeline_logged Let_def)

lemma getUserSubscribedChannels_InrD:
  assumes "getUserSubscribedChannels toObjectId req d = (Inr r, d')"
  shows "\<exists>t chans. castObjectId toObjectId (targetOf req) = Inr t
     \<and> skipLimit (skipOf req) (limitNumber req) (subscribedChannelsPipeline t d) = Inr chans"
  using assms
  by (auto simp: getUserSubscribedChannels_def countDocuments_def aggregateChannels_def
      Let_def pipeline_logged split: sum.splits prod.splits)

lemma searchTotal:
  "(case countStage rows of [] \<Rightarrow> 0 | c # cs \<Rightarrow> if c = 0 then 0 else c) = int (length rows)"
  by (simp add: countStage_def)




lemma searchSubscribedChannels_Inl:
  "searchTry toObjectId regex req d = (Inl e, d') \<Longrightarrow>
   \<exists>m. searchSubscribedChannels toObjectId regex req d = (Inl (ApiError 500 m), d')"
  by (simp add: searchSubscribedChannels_def)


lemma pipeline_dbTwo:
  "subscribedChannelsPipeline idA dbTwo =
     [\<lparr>ch_id = idB, ch_username = ''bob'', ch_fullName = ''Bob B'', ch_avatar = ''b.png'',
        totalSubscribers = 2\<rparr>,
      \<lparr>ch_id = idC, ch_username = ''carol'', ch_fullName = ''Carol C'', ch_avatar = ''c.png'',
        totalSubscribers = 1\<rparr>]"
  using ids_distinct
  by (simp add: subscribedChannelsPipeline_def projectChannel_def lookupSubscribers_def
      unwindChannelDetails_def lookupChannelDetails_def dbTwo_def userA_def userB_def userC_def
      edgeAB_def edgeAC_def edgeCB_def)



lemma getUserSubscribedChannels_flags:
  assumes "getUserSubscribedChannels toObjectId req d = (Inr r, d')"
  shows "(\<forall>c \<in> set (subscribedChannels (payload r)).
            isSubscribedByMe c
              = (\<exists>e \<in> set (subscriptions d).
                   subscriber e = requestingUserId req \<and> channel e = ch_id c))
       \<and> (\<exists>t. oplog d' = oplog d @
             [OpCountDocuments t,
              OpAggregateChannels t None (skipOf req) (limitNumber req),
              OpFind (requestingUserId req) (map ch_id (subscribedChannels (payload r)))])"
proof -
  from getUserSubscribedChannels_InrD [OF assms] obtain t chans where
    t: "castObjectId toObjectId (targetOf req) = Inr t"
    and s: "skipLimit (skipOf req) (limitNumber req) (subscribedChannelsPipeline t d) = Inr chans"
    by blast
  from assms getUserSubscribedChannels_result [OF t s]
  have r: "subscribedChannels (payload r) =
      markSubscribedByMe
        (map (\<lambda>sub. toString (channel sub))
           (filter (\<lambda>e. subscriber e = requestingUserId req
                        \<and> channel e \<in> set (map ch_id chans)) (subscriptions d)))
        chans"
    and d': "oplog d' = oplog d @
             [OpCountDocuments t,
              OpAggregateChannels t None (skipOf req) (limitNumber req),
              OpFind (requestingUserId req) (map ch_id chans)]"
    by (auto simp: respond_def logged_simps)
  have "map ch_id (subscribedChannels (payload r)) = map ch_id chans"
    unfolding r by (rule map_ch_id_mark)
  with d' have 2: "\<exists>t. oplog d' = oplog d @
             [OpCountDocuments t,
              OpAggregateChannels t None (skipOf req) (limitNumber req),
              OpFind (requestingUserId req) (map ch_id (subscribedChannels (payload r)))]"
    by simp
  have 1: "\<forall>c \<in> set (subscribedChannels (payload r)).
            isSubscribedByMe c
              = (\<exists>e \<in> set (subscriptions d).
                   subscriber e = requestingUserId req \<and> channel e = ch_id c)"
    unfolding r using mark_flag by blast
  from 1 2 show ?thesis by blast
qed



text \<open>
  C10. When \<^verbatim>\<open>userId\<close> is absent, every channel of the page the listing returns has
  \<^verbatim>\<open>isSubscribedByMe\<close> true.
\<close>

theorem requester_listing_all_subscribed:
  assumes "userId req = None"
    and "getUserSubscribedChannels toObjectId req d = (Inr r, d')"
  shows "\<forall>c \<in> set (subscribedChannels (payload r)). isSubscribedByMe c"
proof
  fix c assume c: "c \<in> set (subscribedChannels (payload r))"
  have tg: "targetOf req = IdObject (requestingUserId req)"
    using assms(1) by (simp add: targetOf_def)
  from getUserSubscribedChannels_InrD [OF assms(2)] obtain t chans where
    t: "castObjectId toObjectId (targetOf req) = Inr t"
    and s: "skipLimit (skipOf req) (limitNumber req) (subscribedChannelsPipeline t d) = Inr chans"
    by blast
  from t tg have t': "t = requestingUserId req" by simp
  from skipLimit_InrD [OF s] have "set chans \<subseteq> set (subscribedChannelsPipeline t d)"
    by (auto dest: in_set_takeD in_set_dropD)
  moreover from assms(2) getUserSubscribedChannels_result [OF t s]
  have "map ch_id (subscribedChannels (payload r)) = map ch_id chans"
    by (auto simp: respond_def map_ch_id_mark)
  then have "ch_id ` set (subscribedChannels (payload r)) = ch_id ` set chans"
    by (metis set_map)
  with c obtain c0 where "c0 \<in> set chans" "ch_id c0 = ch_id c" by (metis imageE imageI)
  ultimately obtain e where "e \<in> set (subscriptions d)" "subscriber e = t" "channel e = ch_id c"
    using pipeline_edge [of c0 t d] by auto
  with t' getUserSubscribedChannels_flags [OF assms(2)] c show "isSubscribedByMe c"
    by blast
qed

lemma totalOf_listing:
  "totalOf (getUserSubscribedChannels toObjectId req d) =
     (case castObjectId toObjectId (targetOf req) of
        Inl e \<Rightarrow> None
      | Inr t \<Rightarrow>
          (case skipLimit (skipOf req) (limitNumber req) (subscribedChannelsPipeline t d) of
             Inl e \<Rightarrow> None
           | Inr chans \<Rightarrow> Some (int (length (filter (\<lambda>e. subscriber e = t) (subscriptions d))))))"
  by (simp add: totalOf_def getUserSubscribedChannels_def countDocuments_def aggregateChannels_def
      findByChannels_def respond_def Let_def pipeline_logged split: sum.splits)

lemma totalOf_search:
  "totalOf (searchSubscribedChannels toObjectId regex req d) =
     (case castObjectId toObjectId (targetOf req) of
        Inl e \<Rightarrow> None
      | Inr t \<Rightarrow>
          (case regex (searchOf req) of
             None \<Rightarrow> None
           | Some m \<Rightarrow>
               (case skipLimit (skipOf req) (limitNumber req)
                       (projectChannel (lookupSubscribers d (searchRows m t d))) of
                  Inl e \<Rightarrow> None
                | Inr chans \<Rightarrow> Some (int (length (searchRows m t d))))))"
  by (simp add: totalOf_def searchSubscribedChannels_def searchTry_def aggregateCount_def
      aggregateSearch_def searchTotal findByChannels_def respond_def Let_def pipeline_logged
      split: sum.splits option.splits)

lemma length_unwind_one:
  "\<forall>e \<in> set es. length (f e) = 1 \<Longrightarrow>
   length (concat (map (\<lambda>(e, us). map (\<lambda>u. (e, u)) us) (map (\<lambda>e. (e, f e)) es))) = length es"
  by (induction es) auto

lemma length_searchRows_all:
  assumes m: "\<forall>s. m s"
    and one: "\<forall>e \<in> set (subscriptions d).
       subscriber e = t \<longrightarrow> length (filter (\<lambda>u. uid u = channel e) (users d)) = 1"
  shows "length (searchRows m t d) = length (filter (\<lambda>e. subscriber e = t) (subscriptions d))"
proof -
  have "matchSearch m rows = rows" for rows
    using m by (simp add: matchSearch_def)
  moreover have "length (unwindChannelDetails (lookupChannelDetails d
       (filter (\<lambda>e. subscriber e = t) (subscriptions d))))
     = length (filter (\<lambda>e. subscriber e = t) (subscriptions d))"
    unfolding unwindChannelDetails_def lookupChannelDetails_def
    using one by (intro length_unwind_one) simp
  ultimately show ?thesis by (simp add: searchRows_def)
qed

text \<open>
  C8, for states in which every channel the target subscribes to is the id of exactly one
  user document. With an empty (or absent) \<^verbatim>\<open>search\<close>, which the server's matcher
  accepts on every string, and a target that is an ObjectId, the search and the
  listing give the same \<^verbatim>\<open>totalSubscribedChannels\<close>, or both give no answer (a
  \<^verbatim>\<open>page\<close> or \<^verbatim>\<open>limit\<close> the server rejects).
\<close>

theorem search_empty_same_count:
  assumes empty: "search req = None \<or> search req = Some []"
    and rx: "regex [] = Some m" "\<forall>s. m s"
    and t: "castObjectId toObjectId (targetOf req) = Inr t"
    and one: "\<forall>e \<in> set (subscriptions d).
       subscriber e = t \<longrightarrow> length (filter (\<lambda>u. uid u = channel e) (users d)) = 1"
  shows "totalOf (searchSubscribedChannels toObjectId regex req d)
       = totalOf (getUserSubscribedChannels toObjectId req d)"
proof -
  have pat: "searchOf req = []"
    using empty by (auto simp: searchOf_def)
  have len: "length (searchRows m t d) = length (filter (\<lambda>e. subscriber e = t) (subscriptions d))"
    using rx(2) one by (rule length_searchRows_all)
  have "isl (skipLimit (skipOf req) (limitNumber req)
                       (projectChannel (lookupSubscribers d (searchRows m t d))))
      = isl (skipLimit (skipOf req) (limitNumber req) (subscribedChannelsPipeline t d))"
    by (rule skipLimit_isl)
  then show ?thesis
    unfolding totalOf_listing totalOf_search
    using t rx(1) len
    by (cases "skipLimit (skipOf req) (limitNumber req)
                       (projectChannel (lookupSubscribers d (searchRows m t d)))";
        cases "skipLimit (skipOf req) (limitNumber req) (subscribedChannelsPipeline t d)")
       (simp_all add: pat)
qed

lemma example_numbers:
  "skipOf \<lparr>requestingUserId = u, userId = x, page = None, limit = None, search = y\<rparr> = 0"
  "limitNumber \<lparr>requestingUserId = u, userId = x, page = None, limit = None, search = y\<rparr> = 10"
  "skipOf \<lparr>requestingUserId = u, userId = x, page = Some 2, limit = Some 1, search = y\<rparr> = 1"
  "limitNumber \<lparr>requestingUserId = u, userId = x, page = Some 2, limit = Some 1, search = y\<rparr> = 1"
  by (simp_all add: pageNumber_def limitNumber_def skipOf_def jsTimes_def jsMinus_def pageOr_def
      toDouble_safe)

text \<open>
  C8 as stated fails on an edge whose channel is no user document: the listing counts
  the edge (\<^verbatim>\<open>countDocuments\<close>), the search counts the rows that survive the join with
  the users.
\<close>

theorem search_empty_count_counterexample:
  "totalOf (getUserSubscribedChannels hexObjectId
       \<lparr>requestingUserId = idA, userId = None, page = None, limit = None, search = Some []\<rparr>
       dbDangling) = Some 1
   \<and> totalOf (searchSubscribedChannels hexObjectId literalRegex
       \<lparr>requestingUserId = idA, userId = None, page = None, limit = None, search = Some []\<rparr>
       dbDangling) = Some 0"
  using ids_distinct
  by (simp add: totalOf_listing totalOf_search targetOf_def example_numbers skipLimit_def
      searchOf_def literalRegex_def searchRows_def matchSearch_def unwindChannelDetails_def
      lookupChannelDetails_def dbDangling_def userA_def edgeAB_def)

text \<open>
  Such a state is one toggle away from a store without edges: the toggle does not look
  the channel up among the users.
\<close>

lemma dbDangling_reachable:
  "snd (toggleSubscriptionStatus hexObjectId idE1 \<lparr>channelId = Some upperB, requester = idA\<rparr>
         \<lparr>users = [userA], subscriptions = [], oplog = []\<rparr>)
     = dbDangling\<lparr>oplog := [OpFindOne idB idA, OpCreate idB idA]\<rparr>"
  by (simp add: toggleSubscriptionStatus_def toggleSubscribe_def isValidObjectId_def
      findOne_cast hexObjectId_upper strings_nonempty create_def logged_def objectTruthy_def
      dbDangling_def edgeAB_def Let_def)

theorem search_empty_same_count_witness:
  "totalOf (searchSubscribedChannels hexObjectId literalRegex
       \<lparr>requestingUserId = idC, userId = Some upperA, page = Some 2, limit = Some 1, search = None\<rparr>
       dbTwo) = Some 2
   \<and> totalOf (getUserSubscribedChannels hexObjectId
       \<lparr>requestingUserId = idC, userId = Some upperA, page = Some 2, limit = Some 1, search = None\<rparr>
       dbTwo) = Some 2"
proof -
  let ?q = "\<lparr>requestingUserId = idC, userId = Some upperA, page = Some 2, limit = Some 1,
             search = None\<rparr>"
  have e: "search ?q = None \<or> search ?q = Some []" by simp
  have rx: "literalRegex [] = Some (\<lambda>s. containsStr [] (map lowerChar s))"
    "\<forall>s. containsStr [] (map lowerChar s)"
    by (simp_all add: literalRegex_def containsStr_Nil)
  have t: "castObjectId hexObjectId (targetOf ?q) = Inr idA"
    by (simp add: targetOf_def strings_nonempty hexObjectId_upper)
  have one: "\<forall>e \<in> set (subscriptions dbTwo).
       subscriber e = idA \<longrightarrow> length (filter (\<lambda>u. uid u = channel e) (users dbTwo)) = 1"
    using ids_distinct
    by (simp add: dbTwo_def userA_def userB_def userC_def edgeAB_def edgeAC_def edgeCB_def)
  have l: "totalOf (getUserSubscribedChannels hexObjectId ?q dbTwo) = Some 2"
    using ids_distinct
    by (simp add: totalOf_listing t example_numbers skipLimit_def dbTwo_def edgeAB_def edgeAC_def
        edgeCB_def)
  from search_empty_same_count [where regex = literalRegex, OF e rx t one] l
  show ?thesis by simp
qed


theorem requester_listing_all_subscribed_witness:
  "\<exists>r d'. getUserSubscribedChannels hexObjectId
       \<lparr>requestingUserId = idA, userId = None, page = None, limit = None, search = None\<rparr> dbTwo
         = (Inr r, d')
     \<and> map ch_id (subscribedChannels (payload r)) = [idB, idC]
     \<and> list_all isSubscribedByMe (subscribedChannels (payload r))"
proof -
  let ?q = "\<lparr>requestingUserId = idA, userId = None, page = None, limit = None, search = None\<rparr>"
  have t: "castObjectId hexObjectId (targetOf ?q) = Inr idA" by (simp add: targetOf_def)
  have s: "skipLimit (skipOf ?q) (limitNumber ?q)
             (subscribedChannelsPipeline idA dbTwo) = Inr (subscribedChannelsPipeline idA dbTwo)"
    by (simp add: skipLimit_def example_numbers pipeline_dbTwo)
  from getUserSubscribedChannels_result [OF t s]
  obtain r d' where e: "getUserSubscribedChannels hexObjectId ?q dbTwo = (Inr r, d')"
    and i: "map ch_id (subscribedChannels (payload r)) = map ch_id (subscribedChannelsPipeline idA dbTwo)"
    by (simp add: respond_def map_ch_id_mark)
  from requester_listing_all_subscribed [of ?q hexObjectId dbTwo r d'] e
  have "list_all isSubscribedByMe (subscribedChannels (payload r))"
    by (simp add: list_all_iff)
  with e i show ?thesis by (auto simp: pipeline_dbTwo)
qed



end
